theory Spec2Isabelle
  imports Complex_Main "HOL-Library.AList"
begin

section \<open>Python values\<close>

text \<open>
  The server is the FastAPI application of \<^verbatim>\<open>src/MCP/src/main.py\<close> together with the
  terminal handlers of \<^verbatim>\<open>src/MCP/src/terminal_repl.py\<close> and the REPL handler of
  \<^verbatim>\<open>src/MCP/src/clojure_extension.py\<close>.

  A Python \<^verbatim>\<open>str\<close> is represented by its UTF-8 encoding, a \<^typ>\<open>string\<close> whose characters
  are bytes; \<^verbatim>\<open>bytes\<close> values are byte lists as well. Concatenation, equality and emptiness
  of a \<^verbatim>\<open>str\<close> are those of its encoding, and the source never takes the length of a
  \<^verbatim>\<open>str\<close>.
\<close>

type_synonym bytes = string

definition byte_in :: "nat \<Rightarrow> nat \<Rightarrow> char \<Rightarrow> bool" where
  "byte_in lo hi c \<longleftrightarrow> lo \<le> of_char c \<and> of_char c \<le> hi"

definition cont :: "char \<Rightarrow> bool" where
  "cont c \<longleftrightarrow> byte_in 0x80 0xBF c"

definition second3 :: "char \<Rightarrow> char \<Rightarrow> bool" where
  "second3 a b \<longleftrightarrow>
     (if a = CHR 0xE0 then byte_in 0xA0 0xBF b
      else if a = CHR 0xED then byte_in 0x80 0x9F b
      else cont b)"

definition second4 :: "char \<Rightarrow> char \<Rightarrow> bool" where
  "second4 a b \<longleftrightarrow>
     (if a = CHR 0xF0 then byte_in 0x90 0xBF b
      else if a = CHR 0xF4 then byte_in 0x80 0x8F b
      else cont b)"

text \<open>
  \<^verbatim>\<open>bytes.decode()\<close> is the strict UTF-8 codec: it accepts the well-formed byte sequences
  (no overlong forms, no surrogates, nothing above U+10FFFF) and raises
  \<^verbatim>\<open>UnicodeDecodeError\<close> on everything else.
\<close>

fun valid_utf8 :: "bytes \<Rightarrow> bool" where
  "valid_utf8 [] = True"
| "valid_utf8 (a # r) =
     (if byte_in 0x00 0x7F a then valid_utf8 r
      else if byte_in 0xC2 0xDF a then
        (case r of b # r1 \<Rightarrow> cont b \<and> valid_utf8 r1 | _ \<Rightarrow> False)
      else if byte_in 0xE0 0xEF a then
        (case r of b # c # r2 \<Rightarrow> second3 a b \<and> cont c \<and> valid_utf8 r2 | _ \<Rightarrow> False)
      else if byte_in 0xF0 0xF4 a then
        (case r of b # c # d # r3 \<Rightarrow> second4 a b \<and> cont c \<and> cont d \<and> valid_utf8 r3
         | _ \<Rightarrow> False)
      else False)"

definition decode :: "bytes \<Rightarrow> string option" where
  "decode bs = (if valid_utf8 bs then Some bs else None)"

text \<open>
  \<^verbatim>\<open>str.rstrip()\<close> removes trailing white space: the code points U+0009 to U+000D,
  U+001C to U+0020, U+0085, U+00A0, U+1680, U+2000 to U+200A, U+2028, U+2029, U+202F,
  U+205F and U+3000. On the encoding these are one, two or three trailing bytes;
  \<open>strip_rev\<close> works on the reversed string.
\<close>

definition space1 :: "char \<Rightarrow> bool" where
  "space1 c \<longleftrightarrow> byte_in 0x09 0x0D c \<or> byte_in 0x1C 0x20 c"

definition space2 :: "char \<Rightarrow> char \<Rightarrow> bool" where
  "space2 a b \<longleftrightarrow> a = CHR 0xC2 \<and> (b = CHR 0x85 \<or> b = CHR 0xA0)"

definition space3 :: "char \<Rightarrow> char \<Rightarrow> char \<Rightarrow> bool" where
  "space3 a b c \<longleftrightarrow>
     (a = CHR 0xE1 \<and> b = CHR 0x9A \<and> c = CHR 0x80) \<or>
     (a = CHR 0xE2 \<and> b = CHR 0x80 \<and>
        (byte_in 0x80 0x8A c \<or> c = CHR 0xA8 \<or> c = CHR 0xA9 \<or> c = CHR 0xAF)) \<or>
     (a = CHR 0xE2 \<and> b = CHR 0x81 \<and> c = CHR 0x9F) \<or>
     (a = CHR 0xE3 \<and> b = CHR 0x80 \<and> c = CHR 0x80)"

fun strip_rev :: "string \<Rightarrow> string" where
  "strip_rev (c # b # a # r) =
     (if space1 c then strip_rev (b # a # r)
      else if space2 b c then strip_rev (a # r)
      else if space3 a b c then strip_rev r
      else c # b # a # r)"
| "strip_rev [c, b] =
     (if space1 c then strip_rev [b] else if space2 b c then [] else [c, b])"
| "strip_rev [c] = (if space1 c then [] else [c])"
| "strip_rev [] = []"

definition rstrip :: "string \<Rightarrow> string" where
  "rstrip s = rev (strip_rev (rev s))"

text \<open>Decimal text of an integer, as \<^verbatim>\<open>str(n)\<close> and an f-string produce it.\<close>

fun str_of_nat :: "nat \<Rightarrow> string" where
  "str_of_nat n =
     (if n < 10 then [char_of (48 + n)]
      else str_of_nat (n div 10) @ [char_of (48 + n mod 10)])"

definition str_of_int :: "int \<Rightarrow> string" where
  "str_of_int i = (if i < 0 then ''-'' @ str_of_nat (nat (- i)) else str_of_nat (nat i))"

subsection \<open>JSON values\<close>

text \<open>
  \<^verbatim>\<open>json.loads\<close> yields \<^verbatim>\<open>None\<close>, \<^verbatim>\<open>bool\<close>, \<^verbatim>\<open>int\<close>, \<^verbatim>\<open>float\<close>, \<^verbatim>\<open>str\<close>, \<^verbatim>\<open>list\<close> and
  \<^verbatim>\<open>dict\<close> values. The first five are hashable; a float carries its value and the text
  \<^verbatim>\<open>str\<close> gives for it. A \<^verbatim>\<open>dict\<close> is an association list with string keys, looked up
  with \<^const>\<open>map_of\<close>; its keys are distinct, as \<^verbatim>\<open>json.loads\<close> leaves them.
\<close>

datatype atom = ANull | ABool bool | AInt int | AFloat rat string | AStr string

datatype json = Atom atom | JList "json list" | JDict "(string \<times> json) list"

abbreviation JNull :: json where "JNull \<equiv> Atom ANull"
abbreviation JBool :: "bool \<Rightarrow> json" where "JBool b \<equiv> Atom (ABool b)"
abbreviation JInt :: "int \<Rightarrow> json" where "JInt i \<equiv> Atom (AInt i)"
abbreviation JStr :: "string \<Rightarrow> json" where "JStr s \<equiv> Atom (AStr s)"

text \<open>Truth value of an object, as \<^verbatim>\<open>if x\<close> and \<^verbatim>\<open>not x\<close> test it.\<close>

fun truthy :: "json \<Rightarrow> bool" where
  "truthy (Atom ANull) = False"
| "truthy (Atom (ABool b)) = b"
| "truthy (Atom (AInt i)) = (i \<noteq> 0)"
| "truthy (Atom (AFloat v r)) = (v \<noteq> 0)"
| "truthy (Atom (AStr s)) = (s \<noteq> [])"
| "truthy (JList xs) = (xs \<noteq> [])"
| "truthy (JDict kvs) = (kvs \<noteq> [])"

text \<open>
  Dictionary keys: two hashable values are the same key when Python's \<^verbatim>\<open>==\<close> holds, so
  \<^verbatim>\<open>True\<close>, \<^verbatim>\<open>1\<close> and \<^verbatim>\<open>1.0\<close> are one key. Hashing a \<^verbatim>\<open>list\<close> or a \<^verbatim>\<open>dict\<close> raises
  \<^verbatim>\<open>TypeError\<close>, which is the result \<open>None\<close> of \<open>hash_key\<close>.
\<close>

datatype pykey = KNone | KNum rat | KStr string

fun key_of :: "atom \<Rightarrow> pykey" where
  "key_of ANull = KNone"
| "key_of (ABool b) = KNum (if b then 1 else 0)"
| "key_of (AInt i) = KNum (of_int i)"
| "key_of (AFloat v r) = KNum v"
| "key_of (AStr s) = KStr s"

fun hash_key :: "json \<Rightarrow> pykey option" where
  "hash_key (Atom a) = Some (key_of a)"
| "hash_key (JList xs) = None"
| "hash_key (JDict kvs) = None"

text \<open>The text an f-string inserts for a hashable value.\<close>

fun py_str :: "atom \<Rightarrow> string" where
  "py_str ANull = ''None''"
| "py_str (ABool b) = (if b then ''True'' else ''False'')"
| "py_str (AInt i) = str_of_int i"
| "py_str (AFloat v r) = r"
| "py_str (AStr s) = s"

text \<open>\<^verbatim>\<open>params.get(key, default)\<close>.\<close>

definition py_get :: "(string \<times> json) list \<Rightarrow> string \<Rightarrow> json \<Rightarrow> json" where
  "py_get d k dflt = (case map_of d k of Some v \<Rightarrow> v | None \<Rightarrow> dflt)"

section \<open>Message envelope\<close>

datatype MessageType = REQUEST | RESPONSE | ERROR

record Message =
  msg_type :: MessageType
  msg_id :: string
  msg_method :: "string option"
  msg_params :: "(string \<times> json) list option"
  msg_result :: "json option"
  msg_error :: "(string \<times> json) list option"

text \<open>
  \<^verbatim>\<open>Message(**message_data)\<close>: the pydantic model checks the field types only. \<open>type\<close> must
  be one of the three enumeration values and \<open>id\<close> a string; \<open>method\<close> is a string or
  null, \<open>params\<close> and \<open>error\<close> are objects or null, \<open>result\<close> is anything; unknown keys
  are ignored. The result \<open>None\<close> stands for the exception raised otherwise (\<^verbatim>\<open>TypeError\<close>
  when the frame is not an object, \<^verbatim>\<open>ValidationError\<close> when a field is missing or
  ill-typed). This is the validation of pydantic 2, whose \<^verbatim>\<open>model_dump_json\<close> the server
  calls: a number is not accepted where a string is declared.
\<close>

definition parse_type :: "json \<Rightarrow> MessageType option" where
  "parse_type j =
     (if j = JStr ''request'' then Some REQUEST
      else if j = JStr ''response'' then Some RESPONSE
      else if j = JStr ''error'' then Some ERROR
      else None)"

fun opt_str :: "json option \<Rightarrow> string option option" where
  "opt_str None = Some None"
| "opt_str (Some (Atom ANull)) = Some None"
| "opt_str (Some (Atom (AStr s))) = Some (Some s)"
| "opt_str (Some _) = None"

fun opt_dict :: "json option \<Rightarrow> (string \<times> json) list option option" where
  "opt_dict None = Some None"
| "opt_dict (Some (Atom ANull)) = Some None"
| "opt_dict (Some (JDict kvs)) = Some (Some kvs)"
| "opt_dict (Some _) = None"

fun opt_any :: "json option \<Rightarrow> json option" where
  "opt_any None = None"
| "opt_any (Some (Atom ANull)) = None"
| "opt_any (Some v) = Some v"

definition Message_init :: "json \<Rightarrow> Message option" where
  "Message_init j =
     (case j of
        JDict d \<Rightarrow>
          (case (map_of d ''type'', map_of d ''id'') of
             (Some t, Some (Atom (AStr i))) \<Rightarrow>
               (case (parse_type t, opt_str (map_of d ''method''),
                      opt_dict (map_of d ''params''), opt_dict (map_of d ''error'')) of
                  (Some ty, Some m, Some p, Some e) \<Rightarrow>
                    Some \<lparr>msg_type = ty, msg_id = i, msg_method = m, msg_params = p,
                          msg_result = opt_any (map_of d ''result''), msg_error = e\<rparr>
                | _ \<Rightarrow> None)
           | _ \<Rightarrow> None)
      | _ \<Rightarrow> None)"

section \<open>Server state and environment\<close>

text \<open>
  The state is the \<^verbatim>\<open>ConnectionManager\<close>'s two dictionaries and the two module globals
  of the terminal handlers. \<^verbatim>\<open>_active_terminals\<close> is an association list in insertion
  order, because \<^verbatim>\<open>next(iter(_active_terminals))\<close> reads its first key; a process object
  is a number naming it. \<open>stdin_written\<close> stands for the input pipes of the processes:
  it lists, in order, the bytes the handlers have written to the standard input of each
  process; the source keeps no such list.
\<close>

type_synonym proc = nat

record terminal =
  process :: proc
  shell :: json
  cwd :: json
  name :: json
  outputs :: "string list"
  created_at :: json

record server_state =
  running_processes :: "pykey \<rightharpoonup> proc"
  process_output_buffers :: "pykey \<rightharpoonup> string list"
  active_terminals :: "(string \<times> terminal) list"
  current_terminal_id :: "string option"
  stdin_written :: "(proc \<times> bytes) list"

text \<open>
  What the operating system and the libraries answer during one handler call is a
  parameter of the call: whether \<^verbatim>\<open>os.getcwd()\<close> and the spawn succeed, whether
  \<^verbatim>\<open>kill\<close>/\<^verbatim>\<open>wait\<close> and the write to standard input return normally, which lines
  \<^verbatim>\<open>readline\<close> delivers before it times out, the fresh UUID, the clock, and the text
  \<^verbatim>\<open>str(e)\<close> of a caught exception. A handler runs without other tasks interleaved at
  its suspension points. \<open>repr_text\<close> is the text an f-string inserts for a \<^verbatim>\<open>list\<close> or
  a \<^verbatim>\<open>dict\<close>.
\<close>

record world =
  getcwd :: "string option"
  environ_SHELL :: "string option"
  spawn :: "proc option"
  kill_ok :: bool
  stdin_ok :: bool
  stdout_lines :: "bytes list"
  stdin_ok2 :: bool
  stdout_lines2 :: "bytes list"
  uuid4 :: string
  time_now :: json
  exc_str :: string
  repr_text :: string
  has_project_clj :: bool
  has_deps_edn :: bool
  ext_sent :: "Message list"
  ext_raises :: bool

datatype py_exc =
  TypeError | KeyError | AttributeError | UnicodeDecodeError | OSError

text \<open>
  A handler returns the state it leaves, the messages it sent on the requesting channel,
  and the exception that escaped it, if any. Sending on the channel is taken to succeed.
  The list \<^verbatim>\<open>active_connections\<close> of the manager is used by no handler and is left out.
\<close>

type_synonym hresult = "server_state \<times> Message list \<times> py_exc option"

type_synonym handler = "string \<Rightarrow> (string \<times> json) list \<Rightarrow> world \<Rightarrow> server_state \<Rightarrow> hresult"

definition send_response :: "string \<Rightarrow> json \<Rightarrow> Message" where
  "send_response message_id res =
     \<lparr>msg_type = RESPONSE, msg_id = message_id, msg_method = None, msg_params = None,
      msg_result = opt_any (Some res), msg_error = None\<rparr>"

definition send_error :: "string \<Rightarrow> int \<Rightarrow> string \<Rightarrow> Message" where
  "send_error message_id error_code error_message =
     \<lparr>msg_type = ERROR, msg_id = message_id, msg_method = None, msg_params = None,
      msg_result = None,
      msg_error = Some [(''code'', JInt error_code), (''message'', JStr error_message)]\<rparr>"

definition respond :: "server_state \<Rightarrow> string \<Rightarrow> json \<Rightarrow> hresult" where
  "respond st message_id res = (st, [send_response message_id res], None)"

definition fail :: "server_state \<Rightarrow> string \<Rightarrow> int \<Rightarrow> string \<Rightarrow> hresult" where
  "fail st message_id code text = (st, [send_error message_id code text], None)"

definition raise :: "server_state \<Rightarrow> py_exc \<Rightarrow> hresult" where
  "raise st e = (st, [], Some e)"

section \<open>Process supervisor\<close>

text \<open>
  \<^verbatim>\<open>env.update(env_vars)\<close> on a \<^verbatim>\<open>dict\<close>: a mapping is merged; any other argument is
  iterated and every element must be a sequence of length two with a hashable first
  component. \<open>codepoints\<close> counts the characters of a string, the bytes that are not
  continuation bytes.
\<close>

definition codepoints :: "string \<Rightarrow> nat" where
  "codepoints s = length (filter (\<lambda>c. \<not> cont c) s)"

fun pair_like :: "json \<Rightarrow> bool" where
  "pair_like (JList [k, v]) = (hash_key k \<noteq> None)"
| "pair_like (JList xs) = False"
| "pair_like (Atom (AStr s)) = (codepoints s = 2)"
| "pair_like (Atom a) = False"
| "pair_like (JDict kvs) = (length kvs = 2)"

fun dict_update_ok :: "json \<Rightarrow> bool" where
  "dict_update_ok (JDict kvs) = True"
| "dict_update_ok (JList xs) = list_all pair_like xs"
| "dict_update_ok (Atom (AStr s)) = (s = [])"
| "dict_update_ok (Atom a) = False"

definition handle_start_long_running_command :: handler where
  "handle_start_long_running_command message_id params w st =
     (let process_id = py_get params ''processId'' (JStr message_id) in
      if getcwd w = None then raise st OSError
      else if \<not> dict_update_ok (py_get params ''env'' (JDict [])) then raise st TypeError
      else
        (case spawn w of
           None \<Rightarrow> fail st message_id 500 (exc_str w)
         | Some p \<Rightarrow>
             (case hash_key process_id of
                None \<Rightarrow> fail st message_id 500 (exc_str w)
              | Some k \<Rightarrow>
                  respond
                    (st\<lparr>running_processes := (running_processes st)(k \<mapsto> p),
                        process_output_buffers := (process_output_buffers st)(k \<mapsto> [])\<rparr>)
                    message_id
                    (JDict [(''processId'', process_id), (''status'', JStr ''started'')]))))"

text \<open>
  One pass through the loop of \<^verbatim>\<open>collect_process_output\<close>. The observation holds what
  the pass sees: the end-of-file flags, the return code, and for each stream whether
  \<^verbatim>\<open>readline\<close> timed out or which bytes it returned (empty at end of file).
\<close>

datatype read_result = TimeoutError | Read bytes

record pump_obs =
  stdout_at_eof :: bool
  stderr_at_eof :: bool
  returncode :: "int option"
  stdout_read :: read_result
  stderr_read :: read_result

datatype pump_outcome = Continue | Break | Raised py_exc

definition buffer_append :: "pykey \<Rightarrow> string \<Rightarrow> server_state \<Rightarrow> server_state option" where
  "buffer_append k line st =
     (case process_output_buffers st k of
        None \<Rightarrow> None
      | Some ls \<Rightarrow>
          Some (st\<lparr>process_output_buffers := (process_output_buffers st)(k \<mapsto> ls @ [line])\<rparr>))"

definition pump_read :: "pykey \<Rightarrow> string \<Rightarrow> read_result \<Rightarrow> server_state
    \<Rightarrow> server_state \<times> py_exc option" where
  "pump_read k prefix r st =
     (case r of
        TimeoutError \<Rightarrow> (st, None)
      | Read bs \<Rightarrow>
          if bs = [] then (st, None)
          else
            (case decode bs of
               None \<Rightarrow> (st, Some UnicodeDecodeError)
             | Some s \<Rightarrow>
                 (case buffer_append k (prefix @ rstrip s) st of
                    None \<Rightarrow> (st, Some KeyError)
                  | Some st' \<Rightarrow> (st', None))))"

definition exit_marker :: "int \<Rightarrow> string" where
  "exit_marker exit_code = ''Process exited with code '' @ str_of_int exit_code"

definition pump_pass :: "pykey \<Rightarrow> pump_obs \<Rightarrow> server_state
    \<Rightarrow> server_state \<times> pump_outcome" where
  "pump_pass process_id obs st =
     (if stdout_at_eof obs \<and> stderr_at_eof obs \<and> returncode obs \<noteq> None then
        (case buffer_append process_id (exit_marker (the (returncode obs))) st of
           None \<Rightarrow> (st, Raised KeyError)
         | Some st1 \<Rightarrow>
             if running_processes st1 process_id = None then (st1, Raised KeyError)
             else (st1\<lparr>running_processes := (running_processes st1)(process_id := None)\<rparr>,
                   Break))
      else
        (case pump_read process_id [] (stdout_read obs) st of
           (st1, Some e) \<Rightarrow> (st1, Raised e)
         | (st1, None) \<Rightarrow>
             (case pump_read process_id ''ERROR: '' (stderr_read obs) st1 of
                (st2, Some e) \<Rightarrow> (st2, Raised e)
              | (st2, None) \<Rightarrow> (st2, Continue))))"


definition handle_get_process_output :: handler where
  "handle_get_process_output message_id params w st =
     (case py_get params ''processId'' (JStr []) of
        Atom a \<Rightarrow>
          (case process_output_buffers st (key_of a) of
             None \<Rightarrow> fail st message_id 404 (''Process '' @ py_str a @ '' not found'')
           | Some output_lines \<Rightarrow>
               respond
                 (st\<lparr>process_output_buffers :=
                       (process_output_buffers st)(key_of a \<mapsto> [])\<rparr>)
                 message_id
                 (JDict [(''output'', JList (map JStr output_lines)),
                         (''isRunning'', JBool (running_processes st (key_of a) \<noteq> None))]))
      | _ \<Rightarrow> raise st TypeError)"

definition handle_kill_process :: handler where
  "handle_kill_process message_id params w st =
     (case py_get params ''processId'' (JStr []) of
        Atom a \<Rightarrow>
          if running_processes st (key_of a) = None then
            fail st message_id 404 (''Process '' @ py_str a @ '' not found'')
          else if \<not> kill_ok w then fail st message_id 500 (exc_str w)
          else
            respond (st\<lparr>running_processes := (running_processes st)(key_of a := None)\<rparr>)
              message_id (JDict [(''status'', JStr ''killed'')])
      | _ \<Rightarrow> raise st TypeError)"

text \<open>
  \<^verbatim>\<open>handle_clojure_repl\<close> of the Clojure extension is the one handler that writes to
  the standard input of a supervised process. Its body is inside \<^verbatim>\<open>try\<close>, so an
  exception escaping a handler it delegates to is answered with code 500.
\<close>

definition write_stdin :: "proc \<Rightarrow> bytes \<Rightarrow> server_state \<Rightarrow> server_state" where
  "write_stdin p bs st = st\<lparr>stdin_written := stdin_written st @ [(p, bs)]\<rparr>"

fun join_lines :: "string list \<Rightarrow> string" where
  "join_lines [] = []"
| "join_lines [l] = l"
| "join_lines (l # ls) = l @ [CHR 0x0A] @ join_lines ls"

definition caught :: "string \<Rightarrow> world \<Rightarrow> hresult \<Rightarrow> hresult" where
  "caught message_id w r =
     (case r of
        (st, sent, Some e) \<Rightarrow> (st, sent @ [send_error message_id 500 (exc_str w)], None)
      | _ \<Rightarrow> r)"

definition handle_clojure_repl :: handler where
  "handle_clojure_repl message_id params w st =
     (let action = py_get params ''action'' (JStr ''start'');
          process_id = py_get params ''processId'' (JStr []);
          code = py_get params ''code'' (JStr [])
      in
      if getcwd w = None then raise st OSError
      else
        (let project_path = py_get params ''projectPath'' (JStr (the (getcwd w))) in
         if action = JStr ''start'' then
           (case project_path of
              Atom (AStr path) \<Rightarrow>
                (let command =
                   (if has_project_clj w then ''lein repl''
                    else if has_deps_edn w then ''clojure -M:repl''
                    else ''clojure'')
                 in caught message_id w
                      (handle_start_long_running_command message_id
                         [(''command'', JStr command), (''cwd'', project_path),
                          (''processId'', JStr (''clj_repl_'' @ message_id))] w st))
            | _ \<Rightarrow> fail st message_id 500 (exc_str w))
         else if action = JStr ''eval'' \<and> truthy process_id \<and> truthy code then
           (case process_id of
              Atom a \<Rightarrow>
                if running_processes st (key_of a) = None then
                  fail st message_id 404 (''REPL process '' @ py_str a @ '' not found'')
                else
                  (case code of
                     Atom (AStr text) \<Rightarrow>
                       if \<not> stdin_ok w then fail st message_id 500 (exc_str w)
                       else
                         (let st1 = write_stdin (the (running_processes st (key_of a)))
                                      (text @ [CHR 0x0A]) st
                          in
                          case process_output_buffers st1 (key_of a) of
                            None \<Rightarrow> fail st1 message_id 500 (exc_str w)
                          | Some output_lines \<Rightarrow>
                              respond
                                (st1\<lparr>process_output_buffers :=
                                       (process_output_buffers st1)(key_of a \<mapsto> [])\<rparr>)
                                message_id
                                (JDict [(''result'', JStr (join_lines output_lines)),
                                        (''processId'', process_id)]))
                   | _ \<Rightarrow> fail st message_id 500 (exc_str w))
            | _ \<Rightarrow> fail st message_id 500 (exc_str w))
         else if action = JStr ''stop'' \<and> truthy process_id then
           caught message_id w
             (handle_kill_process message_id [(''processId'', process_id)] w st)
         else fail st message_id 400 ''Invalid REPL action or missing parameters''))"

section \<open>Terminal session multiplexer\<close>

definition current_json :: "server_state \<Rightarrow> json" where
  "current_json st = (case current_terminal_id st of None \<Rightarrow> JNull | Some s \<Rightarrow> JStr s)"

text \<open>
  \<^verbatim>\<open>terminal_id in _active_terminals\<close> for a hashable \<^verbatim>\<open>terminal_id\<close>: the keys are
  strings, so only a string can be found.
\<close>

fun terminal_of :: "atom \<Rightarrow> server_state \<Rightarrow> (string \<times> terminal) option" where
  "terminal_of (AStr s) st = map_option (Pair s) (map_of (active_terminals st) s)"
| "terminal_of a st = None"

definition not_found :: "atom \<Rightarrow> string" where
  "not_found a = ''Terminal session with ID '' @ py_str a @ '' not found''"

text \<open>
  The loop \<^verbatim>\<open>while True: line = await wait_for(readline(), 0.1) ...\<close> over the lines the
  process delivers: it ends at a time-out (the end of the list) or at end of file (an
  empty line); a line that does not decode raises (\<open>None\<close>).
\<close>

fun read_lines :: "bytes list \<Rightarrow> string list option" where
  "read_lines [] = Some []"
| "read_lines (l # ls) =
     (if l = [] then Some []
      else
        (case decode l of
           None \<Rightarrow> None
         | Some s \<Rightarrow> map_option ((#) (rstrip s)) (read_lines ls)))"

definition extend_output :: "string \<Rightarrow> string list \<Rightarrow> server_state \<Rightarrow> server_state" where
  "extend_output tid new st =
     st\<lparr>active_terminals :=
          map (\<lambda>(k, t). if k = tid then (k, t\<lparr>outputs := outputs t @ new\<rparr>) else (k, t))
            (active_terminals st)\<rparr>"

definition set_output :: "string \<Rightarrow> string list \<Rightarrow> server_state \<Rightarrow> server_state" where
  "set_output tid new st =
     st\<lparr>active_terminals :=
          map (\<lambda>(k, t). if k = tid then (k, t\<lparr>outputs := new\<rparr>) else (k, t))
            (active_terminals st)\<rparr>"

definition handle_create_terminal_session :: handler where
  "handle_create_terminal_session message_id params w st =
     (let shell = py_get params ''shell''
                    (JStr (case environ_SHELL w of Some s \<Rightarrow> s | None \<Rightarrow> ''/bin/bash''))
      in
      if getcwd w = None then raise st OSError
      else
        (let cwd = py_get params ''cwd'' (JStr (the (getcwd w)));
             name = py_get params ''name''
                      (JStr (''Terminal-'' @ str_of_nat (length (active_terminals st) + 1)));
             terminal_id = uuid4 w
         in
         case spawn w of
           None \<Rightarrow> fail st message_id 500 (exc_str w)
         | Some p \<Rightarrow>
             (let st1 =
                st\<lparr>active_terminals :=
                     AList.update terminal_id
                       \<lparr>process = p, shell = shell, cwd = cwd, name = name, outputs = [],
                        created_at = time_now w\<rparr>
                       (active_terminals st),
                   current_terminal_id :=
                     (if \<not> truthy (current_json st) then Some terminal_id
                      else current_terminal_id st)\<rparr>
              in
              case read_lines (stdout_lines w) of
                None \<Rightarrow> fail st1 message_id 500 (exc_str w)
              | Some initial_output \<Rightarrow>
                  respond (extend_output terminal_id initial_output st1) message_id
                    (JDict [(''terminalId'', JStr terminal_id), (''name'', name),
                            (''shell'', shell),
                            (''initialOutput'', JList (map JStr initial_output))]))))"

definition handle_list_terminal_sessions :: handler where
  "handle_list_terminal_sessions message_id params w st =
     respond st message_id
       (JDict [(''sessions'',
          JList (map (\<lambda>(terminal_id, t).
                   JDict [(''terminalId'', JStr terminal_id), (''name'', name t),
                          (''shell'', shell t), (''cwd'', cwd t),
                          (''isCurrent'', JBool (current_terminal_id st = Some terminal_id)),
                          (''createdAt'', created_at t),
                          (''outputLineCount'', JInt (int (length (outputs t))))])
                 (active_terminals st)))])"

definition handle_switch_terminal_session :: handler where
  "handle_switch_terminal_session message_id params w st =
     (let terminal_id = py_get params ''terminalId'' (JStr []) in
      if \<not> truthy terminal_id then fail st message_id 400 ''Terminal ID is required''
      else
        (case terminal_id of
           Atom a \<Rightarrow>
             (case terminal_of a st of
                None \<Rightarrow> fail st message_id 404 (not_found a)
              | Some (tid, t) \<Rightarrow>
                  respond (st\<lparr>current_terminal_id := Some tid\<rparr>) message_id
                    (JDict [(''terminalId'', terminal_id), (''name'', name t),
                            (''shell'', shell t), (''cwd'', cwd t)]))
         | _ \<Rightarrow> raise st TypeError))"

text \<open>
  The block of \<^verbatim>\<open>handle_close_terminal_session\<close> after \<^verbatim>\<open>await process.wait()\<close>: the
  deletion and the repair of the pointer run without a suspension point between them.
\<close>

definition close_finish :: "string \<Rightarrow> server_state \<Rightarrow> server_state" where
  "close_finish tid st =
     (let st1 = st\<lparr>active_terminals := AList.delete tid (active_terminals st)\<rparr> in
      if current_terminal_id st1 = Some tid then
        st1\<lparr>current_terminal_id :=
              (case active_terminals st1 of [] \<Rightarrow> None | (k, t) # rest \<Rightarrow> Some k)\<rparr>
      else st1)"

definition handle_close_terminal_session :: handler where
  "handle_close_terminal_session message_id params w st =
     (let terminal_id = py_get params ''terminalId'' (current_json st) in
      if \<not> truthy terminal_id then fail st message_id 400 ''No active terminal session''
      else
        (case terminal_id of
           Atom a \<Rightarrow>
             (case terminal_of a st of
                None \<Rightarrow> fail st message_id 404 (not_found a)
              | Some (tid, t) \<Rightarrow>
                  if \<not> kill_ok w then fail st message_id 500 (exc_str w)
                  else
                    (let st2 = close_finish tid st in
                     respond st2 message_id
                       (JDict [(''success'', JBool True),
                               (''message'', JStr (''Terminal session '' @ tid @ '' closed'')),
                               (''currentTerminalId'', current_json st2)])))
         | _ \<Rightarrow> raise st TypeError))"

text \<open>
  Writing, settling and draining, shared by the handlers that send input to a shell:
  the write to standard input may raise, and so may the decoding of a line read back;
  the lines read are appended to the session's history. The result holds the state
  left behind and the lines read, or \<open>None\<close> when an exception was raised.
\<close>

definition format :: "world \<Rightarrow> json \<Rightarrow> string" where
  "format w j = (case j of Atom a \<Rightarrow> py_str a | _ \<Rightarrow> repr_text w)"

definition write_and_collect :: "proc \<Rightarrow> bytes \<Rightarrow> bool \<Rightarrow> bytes list \<Rightarrow> string
    \<Rightarrow> server_state \<Rightarrow> server_state \<times> string list option" where
  "write_and_collect p bs ok lines tid st =
     (if \<not> ok then (st, None)
      else
        (let st1 = write_stdin p bs st in
         case read_lines lines of
           None \<Rightarrow> (st1, None)
         | Some out \<Rightarrow> (extend_output tid out st1, Some out)))"

definition handle_write_to_terminal :: handler where
  "handle_write_to_terminal message_id params w st =
     (let text = py_get params ''text'' (JStr []);
          terminal_id = py_get params ''terminalId'' (current_json st)
      in
      if \<not> truthy text then fail st message_id 400 ''Text to write is required''
      else if \<not> truthy terminal_id then fail st message_id 400 ''No active terminal session''
      else
        (case terminal_id of
           Atom a \<Rightarrow>
             (case terminal_of a st of
                None \<Rightarrow> fail st message_id 404 (not_found a)
              | Some (tid, t) \<Rightarrow>
                  (case write_and_collect (process t) (format w text @ [CHR 0x0A])
                          (stdin_ok w) (stdout_lines w) tid st of
                     (st1, None) \<Rightarrow> fail st1 message_id 500 (exc_str w)
                   | (st1, Some out) \<Rightarrow>
                       respond st1 message_id
                         (JDict [(''output'', JList (map JStr out)),
                                 (''lineCount'', JInt (int (length out)))])))
         | _ \<Rightarrow> raise st TypeError))"

text \<open>
  Python slices \<^verbatim>\<open>xs[i:]\<close> and \<^verbatim>\<open>xs[:i]\<close>: a negative bound counts from the end and is
  clipped at the start of the list. A slice bound must be an \<^verbatim>\<open>int\<close> or a \<^verbatim>\<open>bool\<close>
  (\<open>as_index\<close>); \<^verbatim>\<open>None\<close> is accepted as an absent bound, and unary minus rejects it.
\<close>

definition slice_from :: "int \<Rightarrow> 'a list \<Rightarrow> 'a list" where
  "slice_from i xs =
     (if i < 0 then drop (nat (int (length xs) + i)) xs else drop (nat i) xs)"

definition slice_to :: "int \<Rightarrow> 'a list \<Rightarrow> 'a list" where
  "slice_to i xs =
     (if i < 0 then take (nat (int (length xs) + i)) xs else take (nat i) xs)"

fun as_index :: "json \<Rightarrow> int option" where
  "as_index (Atom (AInt n)) = Some n"
| "as_index (Atom (ABool b)) = Some (if b then 1 else 0)"
| "as_index _ = None"

definition read_window :: "json \<Rightarrow> json \<Rightarrow> string list \<Rightarrow> string list option" where
  "read_window line_count from_end history =
     (if truthy from_end then
        (if history = [] then Some []
         else map_option (\<lambda>n. slice_from (- n) history) (as_index line_count))
      else
        (if history = [] then Some []
         else if line_count = JNull then Some history
         else map_option (\<lambda>n. slice_to n history) (as_index line_count)))"

definition handle_read_terminal_output :: handler where
  "handle_read_terminal_output message_id params w st =
     (let line_count = py_get params ''lineCount'' (JInt 10);
          from_end = py_get params ''fromEnd'' (JBool True);
          terminal_id = py_get params ''terminalId'' (current_json st)
      in
      if \<not> truthy terminal_id then fail st message_id 400 ''No active terminal session''
      else
        (case terminal_id of
           Atom a \<Rightarrow>
             (case terminal_of a st of
                None \<Rightarrow> fail st message_id 404 (not_found a)
              | Some (tid, t) \<Rightarrow>
                  (case read_window line_count from_end (outputs t) of
                     None \<Rightarrow> fail st message_id 500 (exc_str w)
                   | Some out \<Rightarrow>
                       respond st message_id
                         (JDict [(''output'', JList (map JStr out)),
                                 (''lineCount'', JInt (int (length out))),
                                 (''totalLines'', JInt (int (length (outputs t))))])))
         | _ \<Rightarrow> raise st TypeError))"

text \<open>
  \<^verbatim>\<open>str.lower()\<close> on the letters A to Z; no other character lower-cases to one of the
  ASCII letters the handlers compare with.
\<close>

definition lower :: "string \<Rightarrow> string" where
  "lower s = map (\<lambda>c. if byte_in 0x41 0x5A c then char_of (of_char c + (32::nat)) else c) s"

definition ctrl_chars :: "(string \<times> nat) list" where
  "ctrl_chars =
     [(''c'', 3), (''d'', 4), (''z'', 26), (''l'', 12),
      (''a'', 1), (''e'', 5), (''u'', 21), (''r'', 18)]"

definition handle_send_control_character :: handler where
  "handle_send_control_character message_id params w st =
     (let character = py_get params ''character'' (JStr []);
          terminal_id = py_get params ''terminalId'' (current_json st)
      in
      if \<not> truthy character then fail st message_id 400 ''Control character is required''
      else if \<not> truthy terminal_id then fail st message_id 400 ''No active terminal session''
      else
        (case terminal_id of
           Atom a \<Rightarrow>
             (case terminal_of a st of
                None \<Rightarrow> fail st message_id 404 (not_found a)
              | Some (tid, t) \<Rightarrow>
                  (case character of
                     Atom (AStr ch) \<Rightarrow>
                       (case map_of ctrl_chars (lower ch) of
                          None \<Rightarrow>
                            fail st message_id 400 (''Unsupported control character: '' @ ch)
                        | Some char_code \<Rightarrow>
                            (case write_and_collect (process t) [char_of char_code]
                                    (stdin_ok w) (stdout_lines w) tid st of
                               (st1, None) \<Rightarrow> fail st1 message_id 500 (exc_str w)
                             | (st1, Some out) \<Rightarrow>
                                 respond st1 message_id
                                   (JDict [(''success'', JBool True),
                                           (''character'', character),
                                           (''output'', JList (map JStr out)),
                                           (''lineCount'', JInt (int (length out)))])))
                   | _ \<Rightarrow> fail st message_id 500 (exc_str w)))
         | _ \<Rightarrow> raise st TypeError))"

definition handle_clear_terminal_output :: handler where
  "handle_clear_terminal_output message_id params w st =
     (let terminal_id = py_get params ''terminalId'' (current_json st) in
      if \<not> truthy terminal_id then fail st message_id 400 ''No active terminal session''
      else
        (case terminal_id of
           Atom a \<Rightarrow>
             (case terminal_of a st of
                None \<Rightarrow> fail st message_id 404 (not_found a)
              | Some (tid, t) \<Rightarrow>
                  respond (set_output tid [] st) message_id
                    (JDict [(''success'', JBool True),
                            (''message'',
                             JStr (''Terminal output cleared for session '' @ tid))]))
         | _ \<Rightarrow> raise st TypeError))"

definition repl_start_command :: "string \<Rightarrow> string option" where
  "repl_start_command repl_type =
     (if lower repl_type = ''python'' then Some ''python3''
      else if lower repl_type = ''clojure'' \<or> lower repl_type = ''clj'' then Some ''clj''
      else if lower repl_type = ''clojurescript'' \<or> lower repl_type = ''cljs''
        then Some ''clj -m cljs.main''
      else None)"

definition handle_execute_repl_command :: handler where
  "handle_execute_repl_command message_id params w st =
     (let command = py_get params ''command'' (JStr []);
          repl_type = py_get params ''repl'' (JStr []);
          terminal_id = py_get params ''terminalId'' (current_json st)
      in
      if \<not> truthy command then fail st message_id 400 ''Command is required''
      else if \<not> truthy repl_type then fail st message_id 400 ''REPL type is required''
      else if \<not> truthy terminal_id then fail st message_id 400 ''No active terminal session''
      else
        (case terminal_id of
           Atom a \<Rightarrow>
             (case terminal_of a st of
                None \<Rightarrow> fail st message_id 404 (not_found a)
              | Some (tid, t) \<Rightarrow>
                  (case repl_type of
                     Atom (AStr rt) \<Rightarrow>
                       (case repl_start_command rt of
                          None \<Rightarrow> fail st message_id 400 (''Unsupported REPL type: '' @ rt)
                        | Some start \<Rightarrow>
                            (case write_and_collect (process t) (start @ [CHR 0x0A])
                                    (stdin_ok w) (stdout_lines w) tid st of
                               (st1, None) \<Rightarrow> fail st1 message_id 500 (exc_str w)
                             | (st1, Some started) \<Rightarrow>
                                 (case write_and_collect (process t)
                                         (format w command @ [CHR 0x0A])
                                         (stdin_ok2 w) (stdout_lines2 w) tid st1 of
                                    (st2, None) \<Rightarrow> fail st2 message_id 500 (exc_str w)
                                  | (st2, Some out) \<Rightarrow>
                                      respond st2 message_id
                                        (JDict [(''repl'', repl_type),
                                                (''command'', command),
                                                (''output'', JList (map JStr out)),
                                                (''lineCount'',
                                                 JInt (int (length out)))]))))
                   | _ \<Rightarrow> fail st message_id 500 (exc_str w)))
         | _ \<Rightarrow> raise st TypeError))"

section \<open>Method dispatcher\<close>

text \<open>
  The handlers of the file, directory, environment and Python tools never read or write
  the two registries; they are one handler that leaves the state alone and sends, or
  raises, what the environment says.
\<close>

definition handle_external :: handler where
  "handle_external message_id params w st =
     (st, ext_sent w, if ext_raises w then Some OSError else None)"

definition METHOD_HANDLERS :: "(string \<times> handler) list" where
  "METHOD_HANDLERS =
     [(''executeCommand'', handle_external),
      (''startLongRunningCommand'', handle_start_long_running_command),
      (''getProcessOutput'', handle_get_process_output),
      (''killProcess'', handle_kill_process),
      (''readFile'', handle_external),
      (''writeFile'', handle_external),
      (''listDirectory'', handle_external),
      (''createDirectory'', handle_external),
      (''deleteFile'', handle_external),
      (''renameFile'', handle_external),
      (''searchFiles'', handle_external),
      (''checkPythonEnvironment'', handle_external),
      (''checkClojureEnvironment'', handle_external),
      (''pythonInspect'', handle_external),
      (''pythonRunCode'', handle_external),
      (''pythonPip'', handle_external),
      (''pythonVenv'', handle_external),
      (''clojureDeps'', handle_external),
      (''clojureRepl'', handle_clojure_repl),
      (''clojureTest'', handle_external),
      (''createTerminalSession'', handle_create_terminal_session),
      (''listTerminalSessions'', handle_list_terminal_sessions),
      (''switchTerminalSession'', handle_switch_terminal_session),
      (''closeTerminalSession'', handle_close_terminal_session),
      (''writeToTerminal'', handle_write_to_terminal),
      (''readTerminalOutput'', handle_read_terminal_output),
      (''sendControlCharacter'', handle_send_control_character),
      (''clearTerminalOutput'', handle_clear_terminal_output),
      (''executeReplCommand'', handle_execute_repl_command)]"

text \<open>
  One pass through the loop of \<^verbatim>\<open>websocket_endpoint\<close>. A frame is the text received,
  seen through \<^verbatim>\<open>json.loads\<close>: either it does not parse or it is a JSON value. The pass
  returns the new state, the messages sent on the channel and the lines printed to the
  error stream; whatever happens inside, the loop goes on to the next frame.
\<close>

datatype frame = InvalidJson | Json json

definition method_not_found :: "string \<Rightarrow> string" where
  "method_not_found method_name =
     ''Method '' @ [CHR 0x27] @ method_name @ [CHR 0x27] @ '' not found''"

definition process_frame :: "(string \<times> handler) list \<Rightarrow> frame \<Rightarrow> world \<Rightarrow> server_state
    \<Rightarrow> server_state \<times> Message list \<times> string list" where
  "process_frame handlers f w st =
     (case f of
        InvalidJson \<Rightarrow> (st, [], [])
      | Json message_data \<Rightarrow>
          (case Message_init message_data of
             None \<Rightarrow> (st, [], [''Error processing message: '' @ exc_str w])
           | Some message \<Rightarrow>
               if msg_type message = REQUEST \<and> msg_method message \<noteq> None
                  \<and> msg_method message \<noteq> Some [] then
                 (case map_of handlers (the (msg_method message)) of
                    Some handler \<Rightarrow>
                      (case handler (msg_id message)
                              (case msg_params message of None \<Rightarrow> [] | Some ps \<Rightarrow> ps) w st of
                         (st1, sent, None) \<Rightarrow> (st1, sent, [])
                       | (st1, sent, Some e) \<Rightarrow>
                           (st1, sent, [''Error processing message: '' @ exc_str w]))
                  | None \<Rightarrow>
                      (st,
                       [send_error (msg_id message) 404
                          (method_not_found (the (msg_method message)))],
                       []))
               else (st, [], [])))"

fun websocket_endpoint :: "(string \<times> handler) list \<Rightarrow> (frame \<times> world) list \<Rightarrow> server_state
    \<Rightarrow> server_state \<times> Message list \<times> string list" where
  "websocket_endpoint handlers [] st = (st, [], [])"
| "websocket_endpoint handlers ((f, w) # rest) st =
     (case process_frame handlers f w st of
        (st1, sent1, log1) \<Rightarrow>
          (case websocket_endpoint handlers rest st1 of
             (st2, sent2, log2) \<Rightarrow> (st2, sent1 @ sent2, log1 @ log2)))"

section \<open>The server as a transition system\<close>

text \<open>
  Between two suspension points the event loop runs one task. The state of the server
  changes by requests handled on some channel and by passes of the output pumps; any
  pump pass for any key is allowed at any time.
\<close>

datatype event = Request frame world | Pump pykey pump_obs

fun step :: "event \<Rightarrow> server_state \<Rightarrow> server_state" where
  "step (Request f w) st = fst (process_frame METHOD_HANDLERS f w st)"
| "step (Pump k obs) st = fst (pump_pass k obs st)"

definition run :: "event list \<Rightarrow> server_state \<Rightarrow> server_state" where
  "run evs st = fold step evs st"

definition initial_state :: server_state where
  "initial_state =
     \<lparr>running_processes = Map.empty, process_output_buffers = Map.empty,
      active_terminals = [], current_terminal_id = None, stdin_written = []\<rparr>"

text \<open>
  The invariant of the multiplexer: the current-session pointer is \<^verbatim>\<open>None\<close> or a key
  of \<^verbatim>\<open>_active_terminals\<close>.
\<close>

definition pointer_ok :: "server_state \<Rightarrow> bool" where
  "pointer_ok st =
     (case current_terminal_id st of
        None \<Rightarrow> True
      | Some k \<Rightarrow> map_of (active_terminals st) k \<noteq> None)"

subsection \<open>Control flow of one channel\<close>

text \<open>
  The coroutine \<^verbatim>\<open>websocket_endpoint\<close> is one task. It is suspended either in
  \<^verbatim>\<open>await websocket.receive_text()\<close> or inside \<^verbatim>\<open>await handler(...)\<close>, at one of the
  handler's own suspension points; the handler is awaited in the task itself, no task is
  created for it. A frame that has arrived on the socket waits in the inbox until
  \<^verbatim>\<open>receive_text\<close> returns it. Each frame comes with the environment of its handling and
  with the number of suspension points its handling passes; the effect of the handling on
  the state and on the channel is taken when it returns.
\<close>

datatype phase = Receiving | Handling frame world nat

record channel =
  server :: server_state
  inbox :: "(frame \<times> world \<times> nat) list"
  phase :: phase
  dispatched :: "frame list"
  outbox :: "Message list"

datatype channel_event = Arrive frame world nat | Resume

fun channel_step :: "channel_event \<Rightarrow> channel \<Rightarrow> channel" where
  "channel_step (Arrive f w n) c = c\<lparr>inbox := inbox c @ [(f, w, n)]\<rparr>"
| "channel_step Resume c =
     (case phase c of
        Receiving \<Rightarrow>
          (case inbox c of
             [] \<Rightarrow> c
           | (f, w, n) # rest \<Rightarrow>
               c\<lparr>inbox := rest, phase := Handling f w n, dispatched := dispatched c @ [f]\<rparr>)
      | Handling f w (Suc n) \<Rightarrow> c\<lparr>phase := Handling f w n\<rparr>
      | Handling f w 0 \<Rightarrow>
          (case process_frame METHOD_HANDLERS f w (server c) of
             (st1, sent, printed) \<Rightarrow>
               c\<lparr>server := st1, phase := Receiving, outbox := outbox c @ sent\<rparr>))"

definition channel_run :: "channel_event list \<Rightarrow> channel \<Rightarrow> channel" where
  "channel_run evs c = fold channel_step evs c"

text \<open>The number of times the task is resumed in a sequence of events.\<close>

definition resumes :: "channel_event list \<Rightarrow> nat" where
  "resumes evs = length (filter (\<lambda>e. e = Resume) evs)"

section \<open>Auxiliary notions and sample inputs\<close>

text \<open>
  \<open>started\<close> is the outcome of \<^verbatim>\<open>handle_start_long_running_command\<close> when it answers
  \<^verbatim>\<open>{"processId": ..., "status": "started"}\<close>; \<open>keeps\<close> says that a buffer entry
  present before is present after.
\<close>

definition started :: "string \<Rightarrow> atom \<Rightarrow> server_state \<Rightarrow> hresult" where
  "started message_id a st1 =
     respond st1 message_id (JDict [(''processId'', Atom a), (''status'', JStr ''started'')])"

definition keeps :: "pykey \<Rightarrow> server_state \<Rightarrow> server_state \<Rightarrow> bool" where
  "keeps k st st' \<longleftrightarrow> (process_output_buffers st k \<noteq> None \<longrightarrow> process_output_buffers st' k \<noteq> None)"

text \<open>
  \<open>replies_once\<close>: a handler that returns has sent exactly one message, a response or an
  error with the id of the request; a handler that raises has sent nothing.
\<close>

definition replies_once :: "string \<Rightarrow> hresult \<Rightarrow> bool" where
  "replies_once message_id r =
     (case r of
        (st, sent, None) \<Rightarrow>
          length sent = 1 \<and> msg_id (hd sent) = message_id \<and> msg_type (hd sent) \<noteq> REQUEST
      | (st, sent, Some e) \<Rightarrow> sent = [])"

text \<open>A quiet environment and a request frame, for the examples.\<close>

definition quiet_world :: world where
  "quiet_world =
     \<lparr>getcwd = Some ''/srv'', environ_SHELL = Some ''/bin/sh'', spawn = Some 7,
      kill_ok = True, stdin_ok = True, stdout_lines = [], stdin_ok2 = True,
      stdout_lines2 = [], uuid4 = ''t1'', time_now = JInt 0, exc_str = ''failed'',
      repr_text = ''[]'', has_project_clj = False, has_deps_edn = False, ext_sent = [],
      ext_raises = False\<rparr>"

definition request :: "string \<Rightarrow> string \<Rightarrow> (string \<times> json) list \<Rightarrow> frame" where
  "request i m ps =
     Json (JDict [(''type'', JStr ''request''), (''id'', JStr i), (''method'', JStr m),
                  (''params'', JDict ps)])"

definition p1_started :: server_state where
  "p1_started =
     initial_state\<lparr>running_processes := [KStr ''p1'' \<mapsto> 7],
                   process_output_buffers := [KStr ''p1'' \<mapsto> []]\<rparr>"


definition exited_0 :: pump_obs where
  "exited_0 =
     \<lparr>stdout_at_eof = True, stderr_at_eof = True, returncode = Some 0,
      stdout_read = Read [], stderr_read = Read []\<rparr>"

text \<open>
  A state with one terminal session and a given history, a state with two sessions, and
  the handlers behind the seven operations of the multiplexer.
\<close>

definition session_state :: "string list \<Rightarrow> server_state" where
  "session_state history =
     initial_state\<lparr>active_terminals :=
        [(''t1'', \<lparr>process = 7, shell = JStr ''/bin/sh'', cwd = JStr ''/srv'',
                   name = JStr ''Terminal-1'', outputs = history, created_at = JInt 0\<rparr>)],
        current_terminal_id := Some ''t1''\<rparr>"

definition two_sessions :: server_state where
  "two_sessions =
     initial_state\<lparr>active_terminals :=
        [(''t1'', \<lparr>process = 7, shell = JStr ''/bin/sh'', cwd = JStr ''/srv'',
                   name = JStr ''Terminal-1'', outputs = [], created_at = JInt 0\<rparr>),
         (''t2'', \<lparr>process = 8, shell = JStr ''/bin/sh'', cwd = JStr ''/srv'',
                   name = JStr ''Terminal-2'', outputs = [], created_at = JInt 1\<rparr>)],
        current_terminal_id := Some ''t1''\<rparr>"

definition multiplexer_operations :: "handler list" where
  "multiplexer_operations =
     [handle_create_terminal_session, handle_switch_terminal_session,
      handle_close_terminal_session, handle_write_to_terminal,
      handle_read_terminal_output, handle_send_control_character,
      handle_clear_terminal_output]"



definition busy_channel :: channel where
  "busy_channel =
     \<lparr>server = initial_state, inbox = [],
      phase = Handling (request ''r1'' ''executeCommand'' [(''command'', JStr ''sleep 10'')])
                quiet_world 3,
      dispatched = [request ''r1'' ''executeCommand'' [(''command'', JStr ''sleep 10'')]],
      outbox = []\<rparr>"

section \<open>Properties\<close>

subsection \<open>Results of handlers\<close>

lemma fst_respond [simp]: "fst (respond st m r) = st"
  by (simp add: respond_def)

lemma fst_fail [simp]: "fst (fail st m c t) = st"
  by (simp add: fail_def)

lemma fst_raise [simp]: "fst (raise st e) = st"
  by (simp add: raise_def)

lemma fst_caught [simp]: "fst (caught m w r) = fst r"
  by (cases r) (auto simp: caught_def split: option.splits)

lemma buffers_write_stdin [simp]:
  "process_output_buffers (write_stdin p bs st) = process_output_buffers st"
  by (simp add: write_stdin_def)

lemma buffers_extend_output [simp]:
  "process_output_buffers (extend_output t new st) = process_output_buffers st"
  by (simp add: extend_output_def)

lemma buffers_set_output [simp]:
  "process_output_buffers (set_output t new st) = process_output_buffers st"
  by (simp add: set_output_def)

lemma buffers_close_finish [simp]:
  "process_output_buffers (close_finish t st) = process_output_buffers st"
  by (simp add: close_finish_def Let_def)

lemma buffers_write_and_collect [simp]:
  "process_output_buffers (fst (write_and_collect p bs ok ls t st)) = process_output_buffers st"
  by (simp add: write_and_collect_def Let_def split: option.splits)

subsection \<open>No handler removes a buffer\<close>

lemma keeps_same:
  "process_output_buffers st' = process_output_buffers st \<Longrightarrow> keeps k st st'"
  by (simp add: keeps_def)

lemma start_keeps_buffers:
  "keeps k st (fst (handle_start_long_running_command m ps w st))"
  by (simp add: handle_start_long_running_command_def keeps_def Let_def
      split: option.splits)

lemma get_output_keeps_buffers: "keeps k st (fst (handle_get_process_output m ps w st))"
  by (simp add: handle_get_process_output_def keeps_def split: json.splits option.splits)

lemma kill_leaves_buffers:
  "process_output_buffers (fst (handle_kill_process m ps w st))
     = process_output_buffers st"
  by (simp add: handle_kill_process_def split: json.splits)

lemma clojure_repl_keeps_buffers: "keeps k st (fst (handle_clojure_repl m ps w st))"
  using start_keeps_buffers[of k st m _ w]
  by (simp add: handle_clojure_repl_def keeps_def Let_def kill_leaves_buffers
      split: json.splits atom.splits option.splits)

lemma create_leaves_buffers:
  "process_output_buffers (fst (handle_create_terminal_session m ps w st))
     = process_output_buffers st"
  by (simp add: handle_create_terminal_session_def Let_def split: option.splits)

lemma list_leaves_buffers:
  "process_output_buffers (fst (handle_list_terminal_sessions m ps w st))
     = process_output_buffers st"
  by (simp add: handle_list_terminal_sessions_def)

lemma switch_leaves_buffers:
  "process_output_buffers (fst (handle_switch_terminal_session m ps w st))
     = process_output_buffers st"
  by (simp add: handle_switch_terminal_session_def Let_def split: json.splits option.splits)

lemma close_leaves_buffers:
  "process_output_buffers (fst (handle_close_terminal_session m ps w st))
     = process_output_buffers st"
  by (simp add: handle_close_terminal_session_def Let_def split: json.splits option.splits)

lemma write_leaves_buffers:
  "process_output_buffers (fst (handle_write_to_terminal m ps w st))
     = process_output_buffers st"
  by (auto simp add: handle_write_to_terminal_def Let_def split_beta
      split: json.splits option.splits)

lemma read_leaves_buffers:
  "process_output_buffers (fst (handle_read_terminal_output m ps w st))
     = process_output_buffers st"
  by (simp add: handle_read_terminal_output_def Let_def split: json.splits option.splits)

lemma clear_leaves_buffers:
  "process_output_buffers (fst (handle_clear_terminal_output m ps w st))
     = process_output_buffers st"
  by (simp add: handle_clear_terminal_output_def Let_def split: json.splits option.splits)

lemma control_leaves_buffers:
  "process_output_buffers (fst (handle_send_control_character m ps w st))
     = process_output_buffers st"
  by (auto simp add: handle_send_control_character_def Let_def split_beta
      split: json.splits atom.splits option.splits)

lemma repl_leaves_buffers:
  "process_output_buffers (fst (handle_execute_repl_command m ps w st))
     = process_output_buffers st"
  by (auto simp add: handle_execute_repl_command_def Let_def split_beta
      split: json.splits atom.splits option.splits)

lemma external_leaves_state: "fst (handle_external m ps w st) = st"
  by (simp add: handle_external_def)

text \<open>
  A property of the state that every handler of the table preserves is preserved by the
  handling of a frame.
\<close>

lemma process_frame_preserves:
  assumes "\<And>n h m ps. (n, h) \<in> set H \<Longrightarrow> P (fst (h m ps w st))" and "P st"
  shows "P (fst (process_frame H f w st))"
proof (cases f)
  case InvalidJson
  then show ?thesis using assms(2) by (simp add: process_frame_def)
next
  case (Json j)
  show ?thesis
  proof (cases "Message_init j")
    case None
    then show ?thesis using Json assms(2) by (simp add: process_frame_def)
  next
    case (Some msg)
    show ?thesis
    proof (cases "msg_type msg = REQUEST \<and> msg_method msg \<noteq> None
        \<and> msg_method msg \<noteq> Some []")
      case False
      then show ?thesis using Json Some assms(2) by (auto simp add: process_frame_def)
    next
      case True
      show ?thesis
      proof (cases "map_of H (the (msg_method msg))")
        case None
        then show ?thesis using Json Some True assms(2) by (simp add: process_frame_def)
      next
        case (Some h)
        then have "(the (msg_method msg), h) \<in> set H" by (rule map_of_SomeD)
        from assms(1)[OF this, of "msg_id msg"
            "case msg_params msg of None \<Rightarrow> [] | Some ps \<Rightarrow> ps"]
        show ?thesis using Json \<open>Message_init j = Some msg\<close> True Some
          by (auto simp add: process_frame_def split: prod.splits option.splits)
      qed
    qed
  qed
qed

lemma handlers_keep:
  "(n, h) \<in> set METHOD_HANDLERS \<Longrightarrow> keeps k st (fst (h m ps w st))"
  unfolding METHOD_HANDLERS_def
  by (auto simp: start_keeps_buffers get_output_keeps_buffers kill_leaves_buffers
      clojure_repl_keeps_buffers create_leaves_buffers list_leaves_buffers
      switch_leaves_buffers close_leaves_buffers write_leaves_buffers read_leaves_buffers
      clear_leaves_buffers control_leaves_buffers repl_leaves_buffers
      external_leaves_state keeps_same)

lemma pump_pass_keeps_buffers: "keeps k st (fst (pump_pass k' obs st))"
  by (auto simp: pump_pass_def pump_read_def buffer_append_def keeps_def
      split: option.splits read_result.splits prod.splits if_splits)

lemma step_keeps: "keeps k st (step ev st)"
proof (cases ev)
  case (Request f w)
  have "process_output_buffers st k \<noteq> None \<Longrightarrow>
        process_output_buffers (fst (process_frame METHOD_HANDLERS f w st)) k \<noteq> None"
    by (rule process_frame_preserves[where P="\<lambda>s. process_output_buffers s k \<noteq> None"])
       (use handlers_keep[of _ _ k st] in \<open>auto simp: keeps_def\<close>)
  then show ?thesis using Request by (simp add: keeps_def)
next
  case (Pump k' obs)
  then show ?thesis using pump_pass_keeps_buffers[of k st k' obs] by simp
qed

lemma run_keeps:
  "process_output_buffers st k \<noteq> None \<Longrightarrow> process_output_buffers (run evs st) k \<noteq> None"
proof (induction evs arbitrary: st)
  case Nil
  then show ?case by (simp add: run_def)
next
  case (Cons ev evs)
  from Cons.prems step_keeps[of k st ev] have "process_output_buffers (step ev st) k \<noteq> None"
    by (simp add: keeps_def)
  from Cons.IH[OF this] show ?case by (simp add: run_def)
qed

subsection \<open>No handler breaks the pointer\<close>

lemma pointer_ok_iff:
  "pointer_ok st \<longleftrightarrow> (\<forall>k. current_terminal_id st
     = Some k \<longrightarrow> k \<in> fst ` set (active_terminals st))"
  by (auto simp: pointer_ok_def map_of_eq_None_iff split: option.splits)

lemma keys_extend_output [simp]:
  "fst ` set (active_terminals (extend_output t new st))
     = fst ` set (active_terminals st)"
  by (force simp: extend_output_def image_iff split: if_splits)

lemma keys_set_output [simp]:
  "fst ` set (active_terminals (set_output t new st)) = fst ` set (active_terminals st)"
  by (force simp: set_output_def image_iff split: if_splits)

lemma cur_extend_output [simp]:
  "current_terminal_id (extend_output t new st) = current_terminal_id st"
  by (simp add: extend_output_def)

lemma cur_set_output [simp]:
  "current_terminal_id (set_output t new st) = current_terminal_id st"
  by (simp add: set_output_def)

lemma ok_extend_output [simp]: "pointer_ok (extend_output t new st) = pointer_ok st"
  by (simp add: pointer_ok_iff)

lemma ok_set_output [simp]: "pointer_ok (set_output t new st) = pointer_ok st"
  by (simp add: pointer_ok_iff)

lemma ok_write_stdin [simp]: "pointer_ok (write_stdin p bs st) = pointer_ok st"
  by (simp add: pointer_ok_iff write_stdin_def)

lemma ok_buffers_update [simp]:
  "pointer_ok (st\<lparr>process_output_buffers := b\<rparr>) = pointer_ok st"
  by (simp add: pointer_ok_iff)

lemma ok_running_update [simp]:
  "pointer_ok (st\<lparr>running_processes := b\<rparr>) = pointer_ok st"
  by (simp add: pointer_ok_iff)

lemma keys_delete: "fst ` set (AList.delete k al) = fst ` set al - {k}"
  by (induction al) auto

lemma ok_close_finish: "pointer_ok st \<Longrightarrow> pointer_ok (close_finish tid st)"
proof -
  assume ok: "pointer_ok st"
  let ?rest = "AList.delete tid (active_terminals st)"
  show ?thesis
  proof (cases "current_terminal_id st = Some tid")
    case True
    show ?thesis
    proof (cases ?rest)
      case Nil
      then show ?thesis using True by (simp add: pointer_ok_iff close_finish_def)
    next
      case (Cons x xs)
      then have "fst x \<in> fst ` set ?rest" by simp
      then show ?thesis using True Cons
        by (cases x) (simp add: pointer_ok_iff close_finish_def)
    qed
  next
    case False
    then show ?thesis using ok
      by (auto simp: pointer_ok_iff close_finish_def keys_delete)
  qed
qed

lemma ok_write_and_collect [simp]:
  "pointer_ok (fst (write_and_collect p bs ok ls t st)) = pointer_ok st"
  by (simp add: write_and_collect_def Let_def split: option.splits)

lemma keys_update: "fst ` set (AList.update k v al) = insert k (fst ` set al)"
  by (induction al) auto

lemma create_pointer_ok:
  "pointer_ok st \<Longrightarrow> pointer_ok (fst (handle_create_terminal_session m ps w st))"
  by (auto simp add: handle_create_terminal_session_def Let_def pointer_ok_iff keys_update
      split: option.splits)

lemma list_pointer_ok:
  "pointer_ok st \<Longrightarrow> pointer_ok (fst (handle_list_terminal_sessions m ps w st))"
  by (simp add: handle_list_terminal_sessions_def)

lemma terminal_of_key:
  "terminal_of a st = Some (tid, t)
     \<Longrightarrow> tid \<in> fst ` set (active_terminals st) \<and> a = AStr tid"
  by (cases a) (force dest: map_of_SomeD simp: image_iff)+

lemma switch_pointer_ok:
  "pointer_ok st \<Longrightarrow> pointer_ok (fst (handle_switch_terminal_session m ps w st))"
  by (auto simp add: handle_switch_terminal_session_def Let_def pointer_ok_iff dest: terminal_of_key
      split: json.splits option.splits)

lemma close_pointer_ok:
  "pointer_ok st \<Longrightarrow> pointer_ok (fst (handle_close_terminal_session m ps w st))"
  by (auto simp add: handle_close_terminal_session_def Let_def ok_close_finish
      split: json.splits option.splits)

lemma write_pointer_ok:
  "pointer_ok st \<Longrightarrow> pointer_ok (fst (handle_write_to_terminal m ps w st))"
  by (auto simp add: handle_write_to_terminal_def Let_def split_beta
      split: json.splits option.splits)

lemma read_pointer_ok:
  "pointer_ok st \<Longrightarrow> pointer_ok (fst (handle_read_terminal_output m ps w st))"
  by (auto simp add: handle_read_terminal_output_def Let_def
      split: json.splits option.splits)

lemma control_pointer_ok:
  "pointer_ok st \<Longrightarrow> pointer_ok (fst (handle_send_control_character m ps w st))"
  by (auto simp add: handle_send_control_character_def Let_def split_beta
      split: json.splits atom.splits option.splits)

lemma clear_pointer_ok:
  "pointer_ok st \<Longrightarrow> pointer_ok (fst (handle_clear_terminal_output m ps w st))"
  by (auto simp add: handle_clear_terminal_output_def Let_def
      split: json.splits option.splits)

lemma repl_pointer_ok:
  "pointer_ok st \<Longrightarrow> pointer_ok (fst (handle_execute_repl_command m ps w st))"
  by (auto simp add: handle_execute_repl_command_def Let_def split_beta
      split: json.splits atom.splits option.splits)

lemma start_pointer_ok:
  "pointer_ok st \<Longrightarrow> pointer_ok (fst (handle_start_long_running_command m ps w st))"
  by (auto simp add: handle_start_long_running_command_def Let_def split: option.splits)

lemma get_output_pointer_ok:
  "pointer_ok st \<Longrightarrow> pointer_ok (fst (handle_get_process_output m ps w st))"
  by (auto simp add: handle_get_process_output_def split: json.splits option.splits)

lemma kill_pointer_ok:
  "pointer_ok st \<Longrightarrow> pointer_ok (fst (handle_kill_process m ps w st))"
  by (auto simp add: handle_kill_process_def split: json.splits option.splits)

lemma clojure_repl_pointer_ok:
  "pointer_ok st \<Longrightarrow> pointer_ok (fst (handle_clojure_repl m ps w st))"
  by (auto simp add: handle_clojure_repl_def Let_def start_pointer_ok kill_pointer_ok
      split: json.splits atom.splits option.splits)

lemma pump_pass_pointer_ok: "pointer_ok st \<Longrightarrow> pointer_ok (fst (pump_pass k obs st))"
  by (auto simp: pump_pass_def pump_read_def buffer_append_def
      split: option.splits read_result.splits prod.splits if_splits)

lemma handlers_pointer_ok:
  "(n, h) \<in> set METHOD_HANDLERS \<Longrightarrow> pointer_ok st \<Longrightarrow> pointer_ok (fst (h m ps w st))"
  unfolding METHOD_HANDLERS_def
  by (auto simp: start_pointer_ok get_output_pointer_ok kill_pointer_ok
      clojure_repl_pointer_ok create_pointer_ok list_pointer_ok switch_pointer_ok
      close_pointer_ok write_pointer_ok read_pointer_ok
      clear_pointer_ok control_pointer_ok repl_pointer_ok external_leaves_state)

lemma step_pointer_ok: "pointer_ok st \<Longrightarrow> pointer_ok (step ev st)"
proof (cases ev)
  case (Request f w)
  assume "pointer_ok st"
  then have "pointer_ok (fst (process_frame METHOD_HANDLERS f w st))"
    by (intro process_frame_preserves[where P=pointer_ok]) (auto intro: handlers_pointer_ok)
  then show ?thesis using Request by simp
next
  case (Pump k obs)
  assume "pointer_ok st"
  then show ?thesis using Pump by (simp add: pump_pass_pointer_ok)
qed

subsection \<open>Starting a process\<close>

lemma respond_eq [simp]:
  "respond st m r
     = respond st' m' r' \<longleftrightarrow> st = st' \<and> m = m' \<and> opt_any (Some r) = opt_any (Some r')"
  by (auto simp: respond_def send_response_def)

lemma respond_neq_fail [simp]:
  "respond st m r \<noteq> fail st' m' c t" "fail st' m' c t \<noteq> respond st m r"
  by (auto simp: respond_def fail_def send_response_def send_error_def)

lemma respond_neq_raise [simp]:
  "respond st m r \<noteq> raise st' e" "raise st' e \<noteq> respond st m r"
  by (auto simp: respond_def raise_def)

lemma start_creates_buffer:
  assumes "handle_start_long_running_command mid params w st = started mid a st1"
  shows "process_output_buffers st1 (key_of a) = Some []"
proof -
  from assms show ?thesis
    by (auto simp: handle_start_long_running_command_def started_def Let_def
        split: if_splits option.splits)
qed

lemma drain_found:
  assumes "py_get params ''processId'' (JStr []) = Atom a"
      and "process_output_buffers st (key_of a) = Some ls"
  shows "handle_get_process_output mid params w st =
           respond (st\<lparr>process_output_buffers := (process_output_buffers st)(key_of a \<mapsto> [])\<rparr>) mid
             (JDict [(''output'', JList (map JStr ls)),
                     (''isRunning'', JBool (running_processes st (key_of a) \<noteq> None))])"
  using assms by (simp add: handle_get_process_output_def)


subsection \<open>Draining the output buffer\<close>




subsection \<open>The buffer entry of a started process\<close>

text \<open>
  Claim C10. After a successful start the key keeps its entry in
  \<^verbatim>\<open>process_output_buffers\<close> whatever requests and pump passes follow: a drain leaves the
  entry with an empty list and is answered with a response, never with the error for an
  unknown process; \<^verbatim>\<open>killProcess\<close> leaves the buffers as they are; a pass of the pump,
  the one that records the exit included, keeps the entry.
\<close>

theorem buffer_entry_never_removed:
  assumes "handle_start_long_running_command mid0 params0 w0 st0 = started mid0 a st1"
  shows "process_output_buffers (run evs st1) (key_of a) \<noteq> None \<and>
         process_output_buffers
           (fst (handle_get_process_output mid [(''processId'', Atom a)] w (run evs st1)))
           (key_of a) = Some [] \<and>
         map msg_type
           (fst (snd (handle_get_process_output mid [(''processId'', Atom a)] w (run evs st1))))
           = [RESPONSE] \<and>
         process_output_buffers
           (fst (handle_kill_process mid [(''processId'', Atom a)] w (run evs st1)))
           = process_output_buffers (run evs st1) \<and>
         process_output_buffers (fst (pump_pass (key_of a) obs (run evs st1)))
           (key_of a) \<noteq> None"
proof -
  let ?st = "run evs st1"
  from start_creates_buffer[OF assms] have "process_output_buffers st1 (key_of a) \<noteq> None"
    by simp
  then have present: "process_output_buffers ?st (key_of a) \<noteq> None"
    by (rule run_keeps)
  then obtain ls where ls: "process_output_buffers ?st (key_of a) = Some ls" by blast
  have pid: "py_get [(''processId'', Atom a)] ''processId'' (JStr []) = Atom a"
    by (simp add: py_get_def)
  note drain = drain_found[OF pid ls, of mid w]
  have "keeps (key_of a) ?st (fst (pump_pass (key_of a) obs ?st))"
    by (rule pump_pass_keeps_buffers)
  with present have pump: "process_output_buffers
      (fst (pump_pass (key_of a) obs ?st)) (key_of a) \<noteq> None"
    by (simp add: keeps_def)
  show ?thesis
    using present pump by (simp add: drain kill_leaves_buffers respond_def send_response_def)
qed

text \<open>
  The process \<^verbatim>\<open>p1\<close> exits, is drained, and a kill is asked for: the entry is still
  there and the next drain is answered with a response.
\<close>

theorem buffer_entry_never_removed_witness:
  "(let st = run [Pump (KStr ''p1'') exited_0,
                  Request (request ''r2'' ''getProcessOutput'' [(''processId'', JStr ''p1'')])
                    quiet_world,
                  Request (request ''r3'' ''killProcess'' [(''processId'', JStr ''p1'')])
                    quiet_world]
              p1_started
    in process_output_buffers st (KStr ''p1'') = Some [] \<and>
       running_processes st (KStr ''p1'') = None \<and>
       map msg_type
         (fst (snd (handle_get_process_output ''r4'' [(''processId'', JStr ''p1'')] quiet_world st)))
         = [RESPONSE])"
proof -
  have h1: "handle_start_long_running_command ''r1''
       [(''command'', JStr ''echo hi''), (''processId'', JStr ''p1'')] quiet_world initial_state
     = started ''r1'' (AStr ''p1'') p1_started"
    by (simp add: handle_start_long_running_command_def started_def py_get_def quiet_world_def
        p1_started_def initial_state_def)
  let ?evs = "[Pump (KStr ''p1'') exited_0,
               Request (request ''r2'' ''getProcessOutput'' [(''processId'', JStr ''p1'')])
                 quiet_world,
               Request (request ''r3'' ''killProcess'' [(''processId'', JStr ''p1'')])
                 quiet_world]"
  have b: "process_output_buffers (run ?evs p1_started) (KStr ''p1'') = Some []"
    by (simp add: run_def pump_pass_def exited_0_def buffer_append_def
        p1_started_def initial_state_def process_frame_def request_def Message_init_def
        parse_type_def METHOD_HANDLERS_def handle_get_process_output_def
        handle_kill_process_def py_get_def respond_def fail_def)
  have r: "running_processes (run ?evs p1_started) (KStr ''p1'') = None"
    by (simp add: run_def pump_pass_def exited_0_def buffer_append_def
        p1_started_def initial_state_def process_frame_def request_def Message_init_def
        parse_type_def METHOD_HANDLERS_def handle_get_process_output_def
        handle_kill_process_def py_get_def respond_def fail_def)
  from buffer_entry_never_removed[OF h1, of ?evs "''r4''" quiet_world exited_0]
  show ?thesis using b r by (simp add: Let_def)
qed

subsection \<open>Dispatch\<close>

lemma respond_replies_once [simp]: "replies_once m (respond st m r)"
  by (simp add: replies_once_def respond_def send_response_def)

lemma fail_replies_once [simp]: "replies_once m (fail st m c t)"
  by (simp add: replies_once_def fail_def send_error_def)

lemma raise_replies_once [simp]: "replies_once m (raise st e)"
  by (simp add: replies_once_def raise_def)

lemma caught_replies_once: "replies_once m r \<Longrightarrow> replies_once m (caught m w r)"
  by (cases r) (auto simp: replies_once_def caught_def send_error_def split: option.splits)

lemma start_replies_once: "replies_once m (handle_start_long_running_command m ps w st)"
  by (simp add: handle_start_long_running_command_def Let_def split: option.splits)

lemma get_output_replies_once: "replies_once m (handle_get_process_output m ps w st)"
  by (simp add: handle_get_process_output_def split: json.splits option.splits)

lemma kill_replies_once: "replies_once m (handle_kill_process m ps w st)"
  by (simp add: handle_kill_process_def split: json.splits)

lemma clojure_repl_replies_once: "replies_once m (handle_clojure_repl m ps w st)"
  by (simp add: handle_clojure_repl_def Let_def caught_replies_once start_replies_once
      kill_replies_once
      split: json.splits atom.splits option.splits)

lemma create_replies_once: "replies_once m (handle_create_terminal_session m ps w st)"
  by (simp add: handle_create_terminal_session_def Let_def split: option.splits)

lemma list_replies_once: "replies_once m (handle_list_terminal_sessions m ps w st)"
  by (simp add: handle_list_terminal_sessions_def)

lemma switch_replies_once: "replies_once m (handle_switch_terminal_session m ps w st)"
  by (simp add: handle_switch_terminal_session_def Let_def split: json.splits option.splits)

lemma close_replies_once: "replies_once m (handle_close_terminal_session m ps w st)"
  by (simp add: handle_close_terminal_session_def Let_def split: json.splits option.splits)

lemma write_replies_once: "replies_once m (handle_write_to_terminal m ps w st)"
  by (simp add: handle_write_to_terminal_def Let_def split_beta
      split: json.splits option.splits)

lemma read_replies_once: "replies_once m (handle_read_terminal_output m ps w st)"
  by (simp add: handle_read_terminal_output_def Let_def split: json.splits option.splits)

lemma control_replies_once: "replies_once m (handle_send_control_character m ps w st)"
  by (simp add: handle_send_control_character_def Let_def split_beta
      split: json.splits atom.splits option.splits)

lemma clear_replies_once: "replies_once m (handle_clear_terminal_output m ps w st)"
  by (simp add: handle_clear_terminal_output_def Let_def split: json.splits option.splits)

lemma repl_replies_once: "replies_once m (handle_execute_repl_command m ps w st)"
  by (simp add: handle_execute_repl_command_def Let_def split_beta
      split: json.splits atom.splits option.splits)

lemma modelled_handlers_reply_once:
  "(n, h) \<in> set METHOD_HANDLERS \<Longrightarrow> h \<noteq> handle_external \<Longrightarrow> replies_once m (h m ps w st)"
  unfolding METHOD_HANDLERS_def
  by (auto simp: start_replies_once get_output_replies_once kill_replies_once
      clojure_repl_replies_once create_replies_once list_replies_once switch_replies_once
      close_replies_once write_replies_once
      read_replies_once control_replies_once clear_replies_once repl_replies_once)

text \<open>
  Claim C1 says that every well-formed request naming a registered method is answered
  by exactly one response or error with the request's id. The request below is well
  formed and \<^verbatim>\<open>getProcessOutput\<close> is registered, but its \<^verbatim>\<open>processId\<close> is a list: the
  test \<^verbatim>\<open>process_id not in manager.process_output_buffers\<close> raises \<^verbatim>\<open>TypeError\<close>
  outside any \<^verbatim>\<open>try\<close>, the loop of \<^verbatim>\<open>websocket_endpoint\<close> prints the error, and no
  message is sent, for every state and environment.
\<close>

theorem unhashable_process_id_gets_no_reply:
  "map_option msg_type
     (Message_init (JDict [(''type'', JStr ''request''), (''id'', JStr ''r1''),
        (''method'', JStr ''getProcessOutput''),
        (''params'', JDict [(''processId'', JList [])])])) = Some REQUEST \<and>
   map_of METHOD_HANDLERS ''getProcessOutput'' = Some handle_get_process_output \<and>
   process_frame METHOD_HANDLERS
     (request ''r1'' ''getProcessOutput'' [(''processId'', JList [])]) w st
   = (st, [], [''Error processing message: '' @ exc_str w])"
  by (simp add: process_frame_def request_def Message_init_def parse_type_def
      METHOD_HANDLERS_def handle_get_process_output_def py_get_def raise_def)




text \<open>
  Claim C7, amended. A frame that is not JSON, or whose value the \<^verbatim>\<open>Message\<close> model
  rejects (not an object, \<open>type\<close> not one of the three kinds, \<open>id\<close> missing or not a
  string, an ill-typed \<open>method\<close>, \<open>params\<close> or \<open>error\<close>), is dropped: the state is
  unchanged, nothing is sent, and the loop goes on with the frames that follow.
\<close>

theorem malformed_frame_dropped:
  assumes "f = InvalidJson \<or> (\<exists>j. f = Json j \<and> Message_init j = None)"
  shows "fst (process_frame handlers f w st) = st \<and>
         fst (snd (process_frame handlers f w st)) = [] \<and>
         fst (websocket_endpoint handlers ((f, w) # rest) st)
           = fst (websocket_endpoint handlers rest st) \<and>
         fst (snd (websocket_endpoint handlers ((f, w) # rest) st))
           = fst (snd (websocket_endpoint handlers rest st))"
  using assms by (auto simp: process_frame_def split: prod.splits)

theorem malformed_frame_dropped_witness:
  "Message_init (JDict [(''type'', JStr ''request''), (''id'', JInt 5),
                        (''method'', JStr ''getProcessOutput'')]) = None \<and>
   websocket_endpoint METHOD_HANDLERS
     [(Json (JDict [(''type'', JStr ''request''), (''id'', JInt 5),
                    (''method'', JStr ''getProcessOutput'')]), quiet_world),
      (request ''r2'' ''noSuchMethod'' [], quiet_world)] initial_state
   = (initial_state,
      [send_error ''r2'' 404 (method_not_found ''noSuchMethod'')],
      [''Error processing message: failed''])"
proof -
  let ?j = "JDict [(''type'', JStr ''request''), (''id'', JInt 5),
                   (''method'', JStr ''getProcessOutput'')]"
  have h: "Message_init ?j = None"
    by (simp add: Message_init_def)
  then have "Json ?j = InvalidJson \<or> (\<exists>j. Json ?j = Json j \<and> Message_init j = None)"
    by blast
  from malformed_frame_dropped[where handlers = METHOD_HANDLERS and w = quiet_world
      and st = initial_state and rest = "[(request ''r2'' ''noSuchMethod'' [], quiet_world)]",
      OF this]
  show ?thesis using h
    by (simp add: process_frame_def request_def Message_init_def parse_type_def
        METHOD_HANDLERS_def quiet_world_def)
qed

text \<open>
  Claim C7 as stated fails: the model does not check the variant invariant. A request
  with an empty id that also carries \<open>result\<close> and \<open>error\<close> is dispatched to its
  handler and answered.
\<close>

theorem variant_violation_is_dispatched:
  "process_frame METHOD_HANDLERS
     (Json (JDict [(''type'', JStr ''request''), (''id'', JStr []),
                   (''method'', JStr ''getProcessOutput''), (''result'', JInt 1),
                   (''error'', JDict [(''code'', JInt 1)])]))
     quiet_world initial_state
   = (initial_state, [send_error [] 404 ''Process  not found''], [])"
  by (simp add: process_frame_def Message_init_def parse_type_def METHOD_HANDLERS_def
      handle_get_process_output_def py_get_def fail_def initial_state_def)

subsection \<open>The current-session pointer\<close>

lemma close_current:
  assumes "pointer_ok st" and "current_terminal_id st = Some tid" and "tid \<noteq> []"
      and "kill_ok w" and "py_get ps ''terminalId'' (current_json st) = JStr tid"
  shows "fst (handle_close_terminal_session mid ps w st) = close_finish tid st"
proof -
  from assms(1,2) obtain t where "map_of (active_terminals st) tid = Some t"
    by (auto simp: pointer_ok_def)
  then show ?thesis using assms
    by (simp add: handle_close_terminal_session_def Let_def)
qed

lemma close_finish_current:
  assumes "current_terminal_id st = Some tid"
  shows "map_of (active_terminals (close_finish tid st)) tid = None"
    and "current_terminal_id (close_finish tid st) =
           (case active_terminals (close_finish tid st) of [] \<Rightarrow> None | (k, t) # rest \<Rightarrow> Some k)"
  using assms by (simp_all add: close_finish_def Let_def delete_conv')

text \<open>
  Claim C5. If the current-session pointer is \<^verbatim>\<open>None\<close> or a key of the session map,
  it is so again after each of the seven multiplexer operations, and after any request or
  pump pass at all. Closing the current session removes it and, in the same block,
  sets the pointer to the first remaining key, or to \<^verbatim>\<open>None\<close> when no session remains.
\<close>

theorem current_session_pointer_invariant:
  assumes "pointer_ok st"
  shows "(\<forall>h \<in> set multiplexer_operations. pointer_ok (fst (h mid ps w st))) \<and>
         pointer_ok (step ev st) \<and>
         (current_terminal_id st = Some tid \<and> tid \<noteq> [] \<and> kill_ok w \<and>
          py_get ps ''terminalId'' (current_json st) = JStr tid \<longrightarrow>
            (let st' = fst (handle_close_terminal_session mid ps w st) in
             map_of (active_terminals st') tid = None \<and>
             current_terminal_id st' =
               (case active_terminals st' of [] \<Rightarrow> None | (k, t) # rest \<Rightarrow> Some k)))"
proof (intro conjI impI)
  show "\<forall>h \<in> set multiplexer_operations. pointer_ok (fst (h mid ps w st))"
    using assms
    by (simp add: multiplexer_operations_def create_pointer_ok switch_pointer_ok
        close_pointer_ok write_pointer_ok read_pointer_ok control_pointer_ok
        clear_pointer_ok)
  show "pointer_ok (step ev st)" using assms by (rule step_pointer_ok)
next
  assume a: "current_terminal_id st = Some tid \<and> tid \<noteq> [] \<and> kill_ok w \<and>
          py_get ps ''terminalId'' (current_json st) = JStr tid"
  then have "fst (handle_close_terminal_session mid ps w st) = close_finish tid st"
    using close_current[OF assms, of tid w ps mid] by simp
  then show "let st' = fst (handle_close_terminal_session mid ps w st) in
             map_of (active_terminals st') tid = None \<and>
             current_terminal_id st' =
               (case active_terminals st' of [] \<Rightarrow> None | (k, t) # rest \<Rightarrow> Some k)"
    using close_finish_current[of st tid] a by (simp add: Let_def)
qed

theorem current_session_pointer_invariant_witness:
  "pointer_ok two_sessions \<and>
   pointer_ok (fst (handle_close_terminal_session ''r1'' [] quiet_world two_sessions)) \<and>
   map_of (active_terminals (fst (handle_close_terminal_session ''r1'' [] quiet_world two_sessions)))
     ''t1'' = None \<and>
   current_terminal_id (fst (handle_close_terminal_session ''r1'' [] quiet_world two_sessions))
     = Some ''t2''"
proof -
  have ok: "pointer_ok two_sessions"
    by (simp add: pointer_ok_def two_sessions_def initial_state_def)
  have h: "current_terminal_id two_sessions = Some ''t1'' \<and> ''t1'' \<noteq> [] \<and> kill_ok quiet_world \<and>
          py_get [] ''terminalId'' (current_json two_sessions) = JStr ''t1''"
    by (simp add: two_sessions_def quiet_world_def py_get_def current_json_def)
  have m: "handle_close_terminal_session \<in> set multiplexer_operations"
    by (simp add: multiplexer_operations_def)
  have rest: "active_terminals (close_finish ''t1'' two_sessions) =
      [(''t2'', \<lparr>process = 8, shell = JStr ''/bin/sh'', cwd = JStr ''/srv'',
                   name = JStr ''Terminal-2'', outputs = [], created_at = JInt 1\<rparr>)]"
    by (simp add: close_finish_def two_sessions_def Let_def AList.delete_eq)
  note inv = current_session_pointer_invariant[OF ok, of "''r1''" "[]" quiet_world
      "Pump KNone exited_0" "''t1''"]
  from inv m have p: "pointer_ok (fst (handle_close_terminal_session ''r1'' [] quiet_world two_sessions))"
    by blast
  from inv h have c: "let st' = fst (handle_close_terminal_session ''r1'' [] quiet_world two_sessions)
      in map_of (active_terminals st') ''t1'' = None \<and>
         current_terminal_id st' =
           (case active_terminals st' of [] \<Rightarrow> None | (k, t) # rest \<Rightarrow> Some k)"
    by blast
  have e: "fst (handle_close_terminal_session ''r1'' [] quiet_world two_sessions)
      = close_finish ''t1'' two_sessions"
    using close_current[OF ok, of "''t1''" quiet_world "[]" "''r1''"] h by simp
  show ?thesis using ok p c by (simp add: Let_def e rest)
qed

subsection \<open>Reading the history\<close>

lemma read_window_last_lines:
  "0 < n \<Longrightarrow> read_window (JInt n) (JBool True) history
     = Some (drop (length history - min (nat n) (length history)) history)"
  by (auto simp: read_window_def slice_from_def min_def nat_diff_distrib')

lemma read_leaves_state: "fst (handle_read_terminal_output m ps w st) = st"
  by (simp add: handle_read_terminal_output_def Let_def split: json.splits option.splits)

text \<open>
  Claim C9 says that reading with \<open>fromEnd\<close> returns the last
  \<open>min lineCount (length history)\<close> lines for every non-negative \<open>lineCount\<close>. For
  \<open>lineCount = 0\<close> the slice \<^verbatim>\<open>terminal['output'][-0:]\<close> is the whole list: on a history
  of two lines the handler returns both lines, not none.
\<close>

theorem read_zero_lines_returns_whole_history:
  "handle_read_terminal_output ''r1'' [(''lineCount'', JInt 0), (''fromEnd'', JBool True)] w
     (session_state [''a'', ''b''])
   = respond (session_state [''a'', ''b'']) ''r1''
       (JDict [(''output'', JList [JStr ''a'', JStr ''b'']), (''lineCount'', JInt 2),
               (''totalLines'', JInt 2)])"
  by (simp add: handle_read_terminal_output_def py_get_def current_json_def
      session_state_def initial_state_def read_window_def slice_from_def)

subsection \<open>Errors inside the output pump\<close>




subsection \<open>Writing to the input of a process\<close>

lemma supervisor_handlers_write_nothing:
  "stdin_written (fst (handle_start_long_running_command mid params w st)) = stdin_written st"
  "stdin_written (fst (handle_get_process_output mid params w st)) = stdin_written st"
  "stdin_written (fst (handle_kill_process mid params w st)) = stdin_written st"
  by (simp_all add: handle_start_long_running_command_def handle_get_process_output_def
      handle_kill_process_def Let_def split: option.splits json.splits)




subsection \<open>Handlers on one channel\<close>

lemma handling_step:
  assumes "phase c = Handling f w (Suc n)"
  shows "dispatched (channel_step ev c) = dispatched c"
    and "ev = Resume \<Longrightarrow> phase (channel_step ev c) = Handling f w n"
    and "ev \<noteq> Resume \<Longrightarrow> phase (channel_step ev c) = Handling f w (Suc n)"
    and "outbox (channel_step ev c) = outbox c"
  using assms by (cases ev; simp)+

lemma handling_run:
  "phase c = Handling f w n \<Longrightarrow> resumes evs \<le> n \<Longrightarrow>
     dispatched (channel_run evs c) = dispatched c \<and>
     outbox (channel_run evs c) = outbox c \<and>
     phase (channel_run evs c) = Handling f w (n - resumes evs)"
proof (induction evs arbitrary: c n)
  case Nil
  then show ?case by (simp add: channel_run_def resumes_def)
next
  case (Cons ev evs)
  show ?case
  proof (cases ev)
    case (Arrive f' w' n')
    then have "phase (channel_step ev c) = Handling f w n" using Cons.prems(1) by simp
    moreover have "resumes evs \<le> n" using Cons.prems(2) Arrive by (simp add: resumes_def)
    ultimately show ?thesis using Cons.IH[of "channel_step ev c" n] Arrive
      by (simp add: channel_run_def resumes_def)
  next
    case Resume
    then obtain m where n: "n = Suc m" and le: "resumes evs \<le> m"
      using Cons.prems(2) by (cases n) (auto simp: resumes_def)
    have "phase (channel_step ev c) = Handling f w m"
      using Cons.prems(1) n Resume by simp
    from Cons.IH[OF this le] show ?thesis using Resume n Cons.prems(1)
      by (simp add: channel_run_def resumes_def)
  qed
qed

text \<open>
  Claim C4, amended. On one channel the handlers run one at a time. While the task is
  inside a handler that has \<open>n\<close> suspension points before its return, and is resumed at
  most \<open>n\<close> times, no frame is read or dispatched and nothing is sent, however many frames
  arrive; the handler is still the running one. One more resumption after the last
  suspension point returns the task to \<^verbatim>\<open>receive_text\<close>, and only then the next
  resumption reads and dispatches the first waiting frame.
\<close>

theorem handlers_run_one_at_a_time:
  assumes "phase c = Handling f w n" and "resumes evs \<le> n"
  shows "dispatched (channel_run evs c) = dispatched c \<and>
         outbox (channel_run evs c) = outbox c \<and>
         phase (channel_run evs c) = Handling f w (n - resumes evs) \<and>
         (let c1 = channel_run (evs @ replicate (Suc (n - resumes evs)) Resume) c in
          phase c1 = Receiving \<and> dispatched c1 = dispatched c \<and>
          (\<forall>f2 w2 n2 rest. inbox c1 = (f2, w2, n2) # rest \<longrightarrow>
             dispatched (channel_step Resume c1) = dispatched c @ [f2]))"
proof -
  note r = handling_run[OF assms]
  let ?c0 = "channel_run evs c"
  let ?k = "n - resumes evs"
  have "resumes (replicate ?k Resume) \<le> ?k" by (simp add: resumes_def)
  from handling_run[of ?c0 f w ?k, OF _ this] r
  have a: "dispatched (channel_run (replicate ?k Resume) ?c0) = dispatched c"
    and b: "phase (channel_run (replicate ?k Resume) ?c0) = Handling f w 0"
    by (simp_all add: resumes_def)
  let ?c1 = "channel_run (evs @ replicate (Suc ?k) Resume) c"
  have c1: "?c1 = channel_step Resume (channel_run (replicate ?k Resume) ?c0)"
    by (simp add: channel_run_def replicate_append_same[symmetric] del: replicate_Suc)
  have p: "phase ?c1 = Receiving" and d: "dispatched ?c1 = dispatched c"
    unfolding c1 using a b by (simp_all split: prod.splits)
  have "\<forall>f2 w2 n2 rest. inbox ?c1 = (f2, w2, n2) # rest \<longrightarrow>
             dispatched (channel_step Resume ?c1) = dispatched c @ [f2]"
    using p d by simp
  then show ?thesis using r p d by (simp add: Let_def)
qed

theorem handlers_run_one_at_a_time_witness:
  "(let c = channel_run [Arrive (request ''r2'' ''noSuchMethod'' []) quiet_world 0, Resume,
                          Resume] busy_channel
    in dispatched c = dispatched busy_channel \<and>
       inbox c = [(request ''r2'' ''noSuchMethod'' [], quiet_world, 0)] \<and>
       phase c = Handling (request ''r1'' ''executeCommand'' [(''command'', JStr ''sleep 10'')])
                   quiet_world 1)"
proof -
  let ?evs = "[Arrive (request ''r2'' ''noSuchMethod'' []) quiet_world 0, Resume, Resume]"
  have h1: "phase busy_channel =
      Handling (request ''r1'' ''executeCommand'' [(''command'', JStr ''sleep 10'')]) quiet_world 3"
    by (simp add: busy_channel_def)
  have h2: "resumes ?evs \<le> 3" by (simp add: resumes_def)
  have i: "inbox (channel_run ?evs busy_channel) = [(request ''r2'' ''noSuchMethod'' [], quiet_world, 0)]"
    by (simp add: channel_run_def busy_channel_def)
  from handlers_run_one_at_a_time[OF h1 h2] i
  show ?thesis by (simp add: Let_def resumes_def)
qed

text \<open>
  Claim C4 as stated fails: while the handler of \<^verbatim>\<open>r1\<close> is blocked in a slow command, the
  request \<^verbatim>\<open>r2\<close> arrives and the task is resumed three times; the handler of \<^verbatim>\<open>r1\<close> is
  still running, \<^verbatim>\<open>r2\<close> is still in the inbox, and it has not been dispatched or answered.
\<close>

theorem second_request_waits_for_running_handler:
  "(let c = channel_run
              [Arrive (request ''r2'' ''getProcessOutput'' []) quiet_world 0,
               Resume, Resume, Resume]
              busy_channel
    in dispatched c = [request ''r1'' ''executeCommand'' [(''command'', JStr ''sleep 10'')]] \<and>
       inbox c = [(request ''r2'' ''getProcessOutput'' [], quiet_world, 0)] \<and>
       outbox c = [] \<and>
       phase c = Handling (request ''r1'' ''executeCommand'' [(''command'', JStr ''sleep 10'')])
                   quiet_world 0)"
  by (simp add: busy_channel_def channel_run_def)

end
